theory Spec2Isabelle
  imports Complex_Main "HOL-Library.Word"
begin

section \<open>JavaScript values used by the handler\<close>

subsection \<open>Thrown values\<close>

text \<open>
  A thrown value is an error object with a name and a message. \<open>new Error(msg)\<close> has the
  name \<open>Error\<close>; a template literal \<open>`${error}`\<close> renders it as
  \<open>Error.prototype.toString\<close> does.
\<close>

datatype exn = Exn (exnName: string) (exnMessage: string)

definition Error :: "string \<Rightarrow> exn" where
  "Error msg = Exn ''Error'' msg"

definition exnToString :: "exn \<Rightarrow> string" where
  "exnToString e =
     (if exnName e = [] then exnMessage e
      else if exnMessage e = [] then exnName e
      else exnName e @ '': '' @ exnMessage e)"

subsection \<open>Decimal digit strings\<close>

definition digitChar :: "nat \<Rightarrow> char" where
  "digitChar d = ''0123456789'' ! d"

definition isDigit :: "char \<Rightarrow> bool" where
  "isDigit c = (c \<in> set ''0123456789'')"

definition digitValue :: "char \<Rightarrow> nat" where
  "digitValue c = of_char c - 48"

fun natToString :: "nat \<Rightarrow> string" where
  "natToString n =
     (if n < 10 then [digitChar n] else natToString (n div 10) @ [digitChar (n mod 10)])"

declare natToString.simps [simp del]

text \<open>\<open>BigInt.prototype.toString()\<close>: decimal digits, with a leading \<open>-\<close> below zero.\<close>

definition bigintToString :: "int \<Rightarrow> string" where
  "bigintToString i = (if i < 0 then ''-'' @ natToString (nat (- i)) else natToString (nat i))"

text \<open>The value of a string of decimal digits, most significant digit first.\<close>

definition digitsToNat :: "string \<Rightarrow> nat" where
  "digitsToNat ds = foldl (\<lambda>acc c. 10 * acc + digitValue c) 0 ds"

subsection \<open>Numbers\<close>

text \<open>
  A JavaScript \<open>number\<close> is given by what \<open>Number::toString\<close> reads off it: not a number,
  an infinity with its sign, or the decimal \<open>s * 10 ^ e\<close> with its sign, where the digits
  of \<open>s\<close> are the shortest that denote the number (\<open>s = 0\<close> is zero, of either sign).
  The rounding of arithmetic on doubles is not modelled: the handler does no arithmetic on
  its numbers, it only prints them and passes them on.
\<close>

datatype number = NaN | Infinity bool | Decimal bool nat int

text \<open>
  \<open>Number::toString\<close> in radix 10 for a number above zero, with \<open>k\<close> the number of
  digits of \<open>s\<close> and \<open>n = e + k\<close> the position of the decimal point: plain digits when
  \<open>k \<le> n \<le> 21\<close>, a point inside the digits when \<open>0 < n \<le> 21\<close>, leading
  \<open>0.00\<close> when \<open>-6 < n \<le> 0\<close>, and exponent notation otherwise.
\<close>

definition magnitudeToString :: "nat \<Rightarrow> int \<Rightarrow> string" where
  "magnitudeToString s e =
     (let ds = natToString s;
          k = int (length ds);
          n = e + k
      in if k \<le> n \<and> n \<le> 21 then ds @ replicate (nat (n - k)) (CHR ''0'')
         else if 0 < n \<and> n \<le> 21 then take (nat n) ds @ ''.'' @ drop (nat n) ds
         else if - 6 < n \<and> n \<le> 0 then ''0.'' @ replicate (nat (- n)) (CHR ''0'') @ ds
         else (if k = 1 then ds else take 1 ds @ ''.'' @ drop 1 ds)
              @ ''e'' @ (if n - 1 < 0 then ''-'' else ''+'')
              @ natToString (nat \<bar>n - 1\<bar>))"

text \<open>Zero of either sign prints as \<open>0\<close>; a number below zero as \<open>-\<close> and its magnitude.\<close>

fun numberToString :: "number \<Rightarrow> string" where
  "numberToString NaN = ''NaN''"
| "numberToString (Infinity neg) = (if neg then ''-Infinity'' else ''Infinity'')"
| "numberToString (Decimal neg s e) =
     (if s = 0 then ''0'' else (if neg then ''-'' else '''') @ magnitudeToString s e)"

text \<open>Truthiness of a number: \<open>0\<close>, \<open>-0\<close> and \<open>NaN\<close> are falsy.\<close>

fun truthy :: "number \<Rightarrow> bool" where
  "truthy NaN = False"
| "truthy (Infinity neg) = True"
| "truthy (Decimal neg s e) = (s \<noteq> 0)"




section \<open>Library functions the handler imports\<close>

subsection \<open>ethers: parseUnits, MaxInt256\<close>

text \<open>
  Modelled from the spec: \<open>parseUnits\<close> is a function of the ethers library and its code is
  not part of this repository. The spec gives the raw amount as the human amount times
  \<open>10 ^ decimals\<close>; the model reads the decimal string the way the library's fixed-point
  parser does: an optional \<open>-\<close>, digits, an optional point, digits, and nothing else (no
  exponent); the fraction is padded with zeros to \<open>decimals\<close> places and must not have a
  non-zero digit beyond them; at most 80 places; the result fits 512 signed bits. Every
  other input throws.
\<close>

definition matchUnsigned :: "string \<Rightarrow> (string \<times> string) option" where
  "matchUnsigned body =
     (let whole = takeWhile isDigit body;
          rest = dropWhile isDigit body;
          afterPoint = (if rest \<noteq> [] \<and> hd rest = CHR ''.'' then tl rest else rest);
          decimal = takeWhile isDigit afterPoint;
          trailing = dropWhile isDigit afterPoint
      in if trailing \<noteq> [] then None else Some (whole, decimal))"

definition matchDecimal :: "string \<Rightarrow> (bool \<times> string \<times> string) option" where
  "matchDecimal valueStr =
     (let negative = (valueStr \<noteq> [] \<and> hd valueStr = CHR ''-'')
      in case matchUnsigned (if negative then tl valueStr else valueStr) of
           None \<Rightarrow> None
         | Some (whole, decimal) \<Rightarrow> Some (negative, whole, decimal))"

definition parseUnits :: "string \<Rightarrow> nat \<Rightarrow> exn + int" where
  "parseUnits valueStr decimals =
     (case matchDecimal valueStr of
        None \<Rightarrow> Inl (Exn ''TypeError'' ''invalid FixedNumber string value'')
      | Some (negative, whole, decimal) \<Rightarrow>
          if whole @ decimal = []
          then Inl (Exn ''TypeError'' ''invalid FixedNumber string value'')
          else if 80 < decimals
          then Inl (Exn ''TypeError'' ''invalid FixedNumber decimals (too large)'')
          else
            (let padded = decimal @ replicate (decimals - length decimal) (CHR ''0'');
                 magnitude =
                   int (digitsToNat ((if whole = [] then ''0'' else whole) @ take decimals padded));
                 v = (if negative then - magnitude else magnitude)
             in if \<not> list_all (\<lambda>c. c = CHR ''0'') (drop decimals padded)
                then Inl (Error ''too many decimals for format'')
                else if - (2 ^ 511) \<le> v \<and> v < 2 ^ 511 then Inr v
                else Inl (Error ''overflow'')))"

text \<open>
  Modelled from the spec: the constant \<open>MaxInt256\<close> of the ethers library, which the spec
  calls the maximum representable signed integer value; for 256 bits that is
  \<open>2 ^ 255 - 1\<close>.
\<close>

definition MaxInt256 :: int where
  "MaxInt256 = 2 ^ 255 - 1"

subsection \<open>Typed data\<close>

record TokenPermissions =
  token :: string
  amount :: int

record PermitTransferFrom =
  permitted :: TokenPermissions
  spender :: string
  nonce :: int
  deadline :: int

text \<open>A salt is bytes-like: a hex string, or an array of bytes.\<close>

datatype BytesLike = HexString string | Bytes "8 word list"

fun joinWith :: "string \<Rightarrow> string list \<Rightarrow> string" where
  "joinWith sep [] = []"
| "joinWith sep [x] = x"
| "joinWith sep (x # y # ys) = x @ sep @ joinWith sep (y # ys)"

fun bytesLikeToString :: "BytesLike \<Rightarrow> string" where
  "bytesLikeToString (HexString s) = s"
| "bytesLikeToString (Bytes bs) = joinWith '','' (map (\<lambda>b. natToString (unat b)) bs)"

text \<open>
  The domain of a typed-data payload; every field is optional. The permit library builds
  it with a numeric chain id and a bytes-like salt; the signer is given strings.
\<close>

record ('c, 's) TypedDataDomain =
  name :: "string option"
  version :: "string option"
  chainId :: "'c option"
  verifyingContract :: "string option"
  salt :: "'s option"

type_synonym TypedDataTypes = "(string \<times> (string \<times> string) list) list"

record PermitData =
  domain :: "(number, BytesLike) TypedDataDomain"
  types :: TypedDataTypes
  values' :: PermitTransferFrom

subsection \<open>Providers and wallets\<close>

datatype Provider = Provider string

record Wallet =
  address :: string
  signingKey :: string
  provider :: Provider

text \<open>
  The pure library functions whose results the handler only passes on are parameters:
  \<open>toUtf8Bytes\<close> (throws on a malformed string), \<open>keccak256\<close> (a 256-bit digest, which
  the library prints as \<open>0x\<close> hex and \<open>BigInt\<close> reads back as an unsigned integer), the
  \<open>Wallet\<close> constructor, and \<open>SignatureTransfer.getPermitData\<close> with the
  \<open>PERMIT2_ADDRESS\<close> constant of the permit library.
\<close>

record library =
  toUtf8Bytes :: "string \<Rightarrow> exn + 8 word list"
  keccak256 :: "8 word list \<Rightarrow> 256 word"
  newWallet :: "string \<Rightarrow> Provider \<Rightarrow> exn + Wallet"
  getPermitData :: "PermitTransferFrom \<Rightarrow> string \<Rightarrow> number \<Rightarrow> exn + PermitData"
  PERMIT2_ADDRESS :: string

section \<open>The handler's data\<close>

text \<open>
  Modelled from the spec: the enumeration \<open>TokenType\<close> is declared outside this file.
  The spec calls the handler's value the fungible-token variant of an enumeration, so the
  model has \<open>ERC20\<close> and one variant beside it.
\<close>

datatype TokenType = ERC20 | ERC721

record PermitReward =
  tokenType :: TokenType
  tokenAddress :: string
  beneficiary :: string
  nonce :: string
  deadline :: string
  amount :: string
  owner :: string
  signature :: string
  networkId :: number

text \<open>The \<open>Payload\<close> call shape. Its logger is the trace of the run (below).\<close>

record Payload =
  evmNetworkId :: number
  evmPrivateEncrypted :: string
  walletAddress :: string
  issueNodeId :: string
  userId :: number

text \<open>
  The \<open>Context\<close> call shape, with the parts the handler reads: the configuration, the
  user lookup \<open>octokit.users.getByUsername\<close> (its \<open>data\<close>, which may be missing), the
  wallet lookup \<open>adapters.supabase.wallet.getWalletByUserId\<close>, and the webhook payload
  with the node id of its \<open>issue\<close> and of its \<open>pull_request\<close> where it has that key.
\<close>

record Config =
  evmNetworkId :: number
  evmPrivateEncrypted :: string

record UserData =
  userDataId :: number

record WebhookPayload =
  issue :: "string option"
  pull_request :: "string option"

record Context =
  config :: Config
  getByUsername :: "string \<Rightarrow> exn + UserData option"
  getWalletByUserId :: "number \<Rightarrow> exn + string option"
  payload :: WebhookPayload

datatype ContextOrPayload = IsPayload Payload | IsContext Context

text \<open>The local variables \<open>_walletAddress\<close>, \<open>_issueNodeId\<close>, ... that both shapes fill in.\<close>

record locals =
  walletAddress' :: "string option"
  issueNodeId' :: string
  evmNetworkId' :: number
  evmPrivateEncrypted' :: string
  userId' :: number

record PrivateKeyParsed =
  privateKey :: "string option"

section \<open>Effects\<close>

text \<open>
  A run returns the calls it made to its collaborators and its logger, in order, and
  either the value thrown or the value returned.
\<close>

datatype event =
    GetByUsername string
  | GetWalletByUserId number
  | GetFastestProvider number
  | Decrypt string string
  | Decimals string Provider
  | SignTypedData Wallet "(string, string) TypedDataDomain" TypedDataTypes PermitTransferFrom
  | LogError string
  | LogDebug string
  | LogInfo string PermitReward

type_synonym 'a outcome = "event list \<times> (exn + 'a)"

definition succeed :: "'a \<Rightarrow> 'a outcome" where
  "succeed x = ([], Inr x)"

definition throw :: "exn \<Rightarrow> 'a outcome" where
  "throw e = ([], Inl e)"

definition lift :: "exn + 'a \<Rightarrow> 'a outcome" where
  "lift r = ([], r)"

definition perform :: "event \<Rightarrow> exn + 'a \<Rightarrow> 'a outcome" where
  "perform ev r = ([ev], r)"

definition andThen :: "'a outcome \<Rightarrow> ('a \<Rightarrow> 'b outcome) \<Rightarrow> 'b outcome" where
  "andThen m f =
     (case m of
        (tr, Inl e) \<Rightarrow> (tr, Inl e)
      | (tr, Inr x) \<Rightarrow> (case f x of (tr', r) \<Rightarrow> (tr @ tr', r)))"

definition tryCatch :: "'a outcome \<Rightarrow> (exn \<Rightarrow> 'a outcome) \<Rightarrow> 'a outcome" where
  "tryCatch m h =
     (case m of
        (tr, Inl e) \<Rightarrow> (case h e of (tr', r) \<Rightarrow> (tr @ tr', r))
      | (tr, Inr x) \<Rightarrow> (tr, Inr x))"

text \<open>The collaborators that reach outside the process.\<close>

record environment =
  getFastestProvider :: "number \<Rightarrow> exn + Provider option"
  X25519_PRIVATE_KEY :: "string option"
  decrypt :: "string \<Rightarrow> string \<Rightarrow> exn + string"
  parseDecryptedPrivateKey :: "string \<Rightarrow> exn + PrivateKeyParsed"
  decimals :: "string \<Rightarrow> Provider \<Rightarrow> exn + 8 word"
  signTypedData ::
    "Wallet \<Rightarrow> (string, string) TypedDataDomain \<Rightarrow> TypedDataTypes \<Rightarrow> PermitTransferFrom
      \<Rightarrow> exn + string"

section \<open>generateErc20PermitSignature\<close>

text \<open>
  Lines 33 to 60: the locals come from the payload as they are, or from the context through
  the user lookup and the wallet lookup, with the node id of the issue, else of the pull
  request.
\<close>

fun resolveInputs :: "ContextOrPayload \<Rightarrow> string \<Rightarrow> locals outcome" where
  "resolveInputs (IsPayload p) username =
     succeed
       \<lparr> walletAddress' = Some (walletAddress p),
         issueNodeId' = issueNodeId p,
         evmNetworkId' = Payload.evmNetworkId p,
         evmPrivateEncrypted' = Payload.evmPrivateEncrypted p,
         userId' = userId p \<rparr>"
| "resolveInputs (IsContext c) username =
     andThen (perform (GetByUsername username) (getByUsername c username)) (\<lambda>userData.
       case userData of
         None \<Rightarrow> throw (Error (''GitHub user was not found for id '' @ username))
       | Some u \<Rightarrow>
           andThen (perform (GetWalletByUserId (userDataId u)) (getWalletByUserId c (userDataId u)))
             (\<lambda>wallet.
               let found = (\<lambda>nodeId.
                     succeed
                       \<lparr> walletAddress' = wallet,
                         issueNodeId' = nodeId,
                         evmNetworkId' = Config.evmNetworkId (config c),
                         evmPrivateEncrypted' = Config.evmPrivateEncrypted (config c),
                         userId' = userDataId u \<rparr>)
               in case issue (payload c) of
                    Some nodeId \<Rightarrow> found nodeId
                  | None \<Rightarrow>
                      (case pull_request (payload c) of
                         Some nodeId \<Rightarrow> found nodeId
                       | None \<Rightarrow> throw (Error ''Issue Id is missing''))))"

text \<open>Lines 62 to 69: the username, then the wallet address, must be truthy.\<close>

definition walletNotFound :: string where
  "walletNotFound = ''ERC20 Permit generation error: Wallet not found''"

definition requireUserAndWallet :: "string \<Rightarrow> string option \<Rightarrow> string outcome" where
  "requireUserAndWallet username wallet =
     (if username = [] then throw (Error ''User was not found'')
      else
        (case wallet of
           None \<Rightarrow> andThen (perform (LogError walletNotFound) (Inr ())) (\<lambda>_. throw (Error walletNotFound))
         | Some a \<Rightarrow>
             if a = []
             then andThen (perform (LogError walletNotFound) (Inr ())) (\<lambda>_. throw (Error walletNotFound))
             else succeed a))"

text \<open>Lines 71 to 75.\<close>

definition resolveProvider :: "environment \<Rightarrow> number \<Rightarrow> Provider outcome" where
  "resolveProvider env evmNetwork =
     andThen (perform (GetFastestProvider evmNetwork) (getFastestProvider env evmNetwork)) (\<lambda>found.
       case found of
         None \<Rightarrow>
           andThen (perform (LogError ''Provider is not defined'') (Inr ()))
             (\<lambda>_. throw (Error ''Provider is not defined''))
       | Some p \<Rightarrow> succeed p)"

text \<open>
  Lines 77 to 87. \<open>String(process.env.X25519_PRIVATE_KEY)\<close> is \<open>undefined\<close> spelled out
  when the variable is not set. Whatever the block throws, its own error for a missing key
  included, is caught, logged and thrown again under one message.
\<close>

definition secretString :: "environment \<Rightarrow> string" where
  "secretString env = (case X25519_PRIVATE_KEY env of None \<Rightarrow> ''undefined'' | Some s \<Rightarrow> s)"

definition resolvePrivateKey :: "environment \<Rightarrow> string \<Rightarrow> string outcome" where
  "resolvePrivateKey env encrypted =
     tryCatch
       (andThen (perform (Decrypt encrypted (secretString env)) (decrypt env encrypted (secretString env)))
          (\<lambda>privateKeyDecrypted.
            andThen (lift (parseDecryptedPrivateKey env privateKeyDecrypted)) (\<lambda>privateKeyParsed.
              case privateKey privateKeyParsed of
                None \<Rightarrow> throw (Error ''Private key is not defined'')
              | Some k \<Rightarrow> if k = [] then throw (Error ''Private key is not defined'') else succeed k)))
       (\<lambda>error.
          let errorMessage = ''Failed to decrypt a private key: '' @ exnToString error
          in andThen (perform (LogError errorMessage) (Inr ())) (\<lambda>_. throw (Error errorMessage)))"

text \<open>Lines 92 to 98.\<close>

definition instantiateWallet :: "library \<Rightarrow> string \<Rightarrow> Provider \<Rightarrow> Wallet outcome" where
  "instantiateWallet lib key p =
     tryCatch (lift (newWallet lib key p))
       (\<lambda>error.
          let errorMessage = ''Failed to instantiate wallet: '' @ exnToString error
          in andThen (perform (LogDebug errorMessage) (Inr ())) (\<lambda>_. throw (Error errorMessage)))"

text \<open>Lines 100 to 108: the contract's \<open>decimals()\<close> returns a \<open>uint8\<close>.\<close>

definition fetchTokenDecimals :: "environment \<Rightarrow> string \<Rightarrow> Provider \<Rightarrow> (8 word) outcome" where
  "fetchTokenDecimals env tokenAddr p =
     tryCatch (perform (Decimals tokenAddr p) (decimals env tokenAddr p))
       (\<lambda>error.
          let errorMessage = ''Failed to get token decimals for token: '' @ tokenAddr
          in andThen (perform (LogDebug errorMessage) (Inr ())) (\<lambda>_. throw (Error errorMessage)))"

text \<open>
  Lines 110 to 118. The amount is evaluated before the nonce; what \<open>parseUnits\<close> or
  \<open>toUtf8Bytes\<close> throws is not caught.
\<close>

definition permitTransferFromData ::
  "library \<Rightarrow> string \<Rightarrow> number \<Rightarrow> 8 word \<Rightarrow> string \<Rightarrow> number \<Rightarrow> string \<Rightarrow> exn + PermitTransferFrom"
where
  "permitTransferFromData lib tokenAddr amt tokenDecimals wallet uid nodeId =
     (case parseUnits (numberToString amt) (unat tokenDecimals) of
        Inl e \<Rightarrow> Inl e
      | Inr raw \<Rightarrow>
          (case toUtf8Bytes lib (numberToString uid @ ''-'' @ nodeId) of
             Inl e \<Rightarrow> Inl e
           | Inr bytes \<Rightarrow>
               Inr \<lparr> permitted = \<lparr> token = tokenAddr, amount = raw \<rparr>,
                     spender = wallet,
                     nonce = uint (keccak256 lib bytes),
                     deadline = MaxInt256 \<rparr>))"

text \<open>
  Lines 124 to 130: the domain given to the signer. The chain id is printed when it is
  truthy, the salt when it is there.
\<close>

definition signerDomain ::
  "(number, BytesLike) TypedDataDomain \<Rightarrow> (string, string) TypedDataDomain"
where
  "signerDomain d =
     \<lparr> name = name d,
       version = version d,
       chainId =
         (case chainId d of
            None \<Rightarrow> None
          | Some c \<Rightarrow> if truthy c then Some (numberToString c) else None),
       verifyingContract = verifyingContract d,
       salt = (case salt d of None \<Rightarrow> None | Some s \<Rightarrow> Some (bytesLikeToString s)) \<rparr>"

text \<open>Lines 122 to 138.\<close>

definition signPermit :: "environment \<Rightarrow> Wallet \<Rightarrow> PermitData \<Rightarrow> string outcome" where
  "signPermit env adminWallet pd =
     tryCatch
       (perform (SignTypedData adminWallet (signerDomain (domain pd)) (types pd) (values' pd))
          (signTypedData env adminWallet (signerDomain (domain pd)) (types pd) (values' pd)))
       (\<lambda>error.
          let errorMessage = ''Failed to sign typed data '' @ exnToString error
          in andThen (perform (LogError errorMessage) (Inr ())) (\<lambda>_. throw (Error errorMessage)))"

text \<open>Lines 140 to 150.\<close>

definition erc20Permit :: "PermitTransferFrom \<Rightarrow> Wallet \<Rightarrow> string \<Rightarrow> number \<Rightarrow> PermitReward" where
  "erc20Permit permit adminWallet sig networkIdent =
     \<lparr> tokenType = ERC20,
       tokenAddress = token (permitted permit),
       beneficiary = spender permit,
       nonce = bigintToString (PermitTransferFrom.nonce permit),
       deadline = bigintToString (PermitTransferFrom.deadline permit),
       amount = bigintToString (TokenPermissions.amount (permitted permit)),
       owner = address adminWallet,
       signature = sig,
       networkId = networkIdent \<rparr>"

definition generateErc20PermitSignature ::
  "library \<Rightarrow> environment \<Rightarrow> ContextOrPayload \<Rightarrow> string \<Rightarrow> number \<Rightarrow> string \<Rightarrow> PermitReward outcome"
where
  "generateErc20PermitSignature lib env contextOrPayload username amt tokenAddr =
     andThen (resolveInputs contextOrPayload username) (\<lambda>l.
     andThen (requireUserAndWallet username (walletAddress' l)) (\<lambda>wallet.
     andThen (resolveProvider env (evmNetworkId' l)) (\<lambda>p.
     andThen (resolvePrivateKey env (evmPrivateEncrypted' l)) (\<lambda>key.
     andThen (instantiateWallet lib key p) (\<lambda>adminWallet.
     andThen (fetchTokenDecimals env tokenAddr p) (\<lambda>tokenDecimals.
     andThen (lift (permitTransferFromData lib tokenAddr amt tokenDecimals wallet
                      (userId' l) (issueNodeId' l))) (\<lambda>permit.
     andThen (lift (getPermitData lib permit (PERMIT2_ADDRESS lib) (evmNetworkId' l))) (\<lambda>pd.
     andThen (signPermit env adminWallet pd) (\<lambda>sig.
     andThen (perform (LogInfo ''Generated ERC20 permit2 signature''
                         (erc20Permit permit adminWallet sig (evmNetworkId' l))) (Inr ()))
       (\<lambda>_. succeed (erc20Permit permit adminWallet sig (evmNetworkId' l))))))))))))"

section \<open>Reading a run\<close>

text \<open>The kinds of call a trace can hold.\<close>

fun isLookup :: "event \<Rightarrow> bool" where
  "isLookup (GetByUsername u) = True"
| "isLookup (GetWalletByUserId n) = True"
| "isLookup ev = False"

fun isProviderResolution :: "event \<Rightarrow> bool" where
  "isProviderResolution (GetFastestProvider n) = True"
| "isProviderResolution ev = False"

fun isDecryption :: "event \<Rightarrow> bool" where
  "isDecryption (Decrypt c s) = True"
| "isDecryption ev = False"

fun isDecimalsFetch :: "event \<Rightarrow> bool" where
  "isDecimalsFetch (Decimals t p) = True"
| "isDecimalsFetch ev = False"

fun isSigning :: "event \<Rightarrow> bool" where
  "isSigning (SignTypedData w d t v) = True"
| "isSigning ev = False"

text \<open>
  The calls that go over the network: the two lookups of the context shape, provider
  resolution, the decimals fetch and signing.
\<close>

definition isNetworkCall :: "event \<Rightarrow> bool" where
  "isNetworkCall ev =
     (isLookup ev \<or> isProviderResolution ev \<or> isDecimalsFetch ev \<or> isSigning ev)"

text \<open>
  What makes the key material unusable, if anything does: what \<open>decrypt\<close> throws, what
  \<open>parseDecryptedPrivateKey\<close> throws, or the handler's own error for a missing or empty
  private-key field.
\<close>

definition keyFailure :: "environment \<Rightarrow> string \<Rightarrow> exn option" where
  "keyFailure env encrypted =
     (case decrypt env encrypted (secretString env) of
        Inl e \<Rightarrow> Some e
      | Inr privateKeyDecrypted \<Rightarrow>
          (case parseDecryptedPrivateKey env privateKeyDecrypted of
             Inl e \<Rightarrow> Some e
           | Inr privateKeyParsed \<Rightarrow>
               (case privateKey privateKeyParsed of
                  None \<Rightarrow> Some (Error ''Private key is not defined'')
                | Some k \<Rightarrow> if k = [] then Some (Error ''Private key is not defined'') else None)))"

section \<open>A sample run\<close>

text \<open>
  Stand-ins for the collaborators, to run the handler on concrete inputs: strings are
  ASCII, the digest is a toy (the length of its input), the permit library copies the chain
  id into the domain as the real one does, and only the ciphertext \<open>ciphertext\<close> decrypts.
\<close>

definition permitTransferFromTypes :: TypedDataTypes where
  "permitTransferFromTypes =
     [(''PermitTransferFrom'',
         [(''permitted'', ''TokenPermissions''), (''spender'', ''address''),
          (''nonce'', ''uint256''), (''deadline'', ''uint256'')]),
      (''TokenPermissions'', [(''token'', ''address''), (''amount'', ''uint256'')])]"

definition permit2Domain :: "string \<Rightarrow> number \<Rightarrow> (number, BytesLike) TypedDataDomain" where
  "permit2Domain permit2Address chain =
     \<lparr> name = Some ''Permit2'', version = None, chainId = Some chain,
       verifyingContract = Some permit2Address, salt = None \<rparr>"

definition sampleLibrary :: library where
  "sampleLibrary =
     \<lparr> toUtf8Bytes = (\<lambda>s. Inr (map of_char s)),
       keccak256 = (\<lambda>bytes. of_nat (length bytes)),
       newWallet = (\<lambda>key p. Inr \<lparr> address = ''0xAdmin'', signingKey = key, provider = p \<rparr>),
       getPermitData = (\<lambda>permit permit2Address chain.
          Inr \<lparr> domain = permit2Domain permit2Address chain,
                types = permitTransferFromTypes,
                values' = permit \<rparr>),
       PERMIT2_ADDRESS = ''0x000000000022D473030F116dDEE9F6B43aC78BA3'' \<rparr>"

definition sampleEnvironment :: environment where
  "sampleEnvironment =
     \<lparr> getFastestProvider = (\<lambda>chain. Inr (Some (Provider ''https://rpc.example''))),
       X25519_PRIVATE_KEY = Some ''secret'',
       decrypt = (\<lambda>encrypted secret.
          if encrypted = ''ciphertext'' then Inr ''0xKey''
          else Inl (Error ''incorrect key pair for the given ciphertext'')),
       parseDecryptedPrivateKey = (\<lambda>decrypted. Inr \<lparr> privateKey = Some decrypted \<rparr>),
       decimals = (\<lambda>tokenAddr p. Inr 6),
       signTypedData = (\<lambda>w d t v. Inr ''0xSignature'') \<rparr>"

definition samplePayload :: Payload where
  "samplePayload =
     \<lparr> Payload.evmNetworkId = Decimal False 100 0,
       Payload.evmPrivateEncrypted = ''ciphertext'',
       walletAddress = ''0xBeneficiary'',
       issueNodeId = ''I_kwDO'',
       userId = Decimal False 42 0 \<rparr>"

definition sampleContext :: Context where
  "sampleContext =
     \<lparr> config = \<lparr> evmNetworkId = Decimal False 100 0, evmPrivateEncrypted = ''ciphertext'' \<rparr>,
       getByUsername = (\<lambda>username. Inr (Some \<lparr> userDataId = Decimal False 42 0 \<rparr>)),
       getWalletByUserId = (\<lambda>uid. Inr (Some ''0xBeneficiary'')),
       payload = \<lparr> issue = Some ''I_kwDO'', pull_request = None \<rparr> \<rparr>"

text \<open>What the sample run signs, returns and leaves in its trace.\<close>

definition sampleWallet :: Wallet where
  "sampleWallet =
     \<lparr> address = ''0xAdmin'', signingKey = ''0xKey'', provider = Provider ''https://rpc.example'' \<rparr>"

definition samplePermit :: "int \<Rightarrow> PermitTransferFrom" where
  "samplePermit raw =
     \<lparr> permitted = \<lparr> token = ''0xToken'', amount = raw \<rparr>,
       spender = ''0xBeneficiary'',
       nonce = 9,
       deadline = MaxInt256 \<rparr>"

definition sampleDomain :: "string option \<Rightarrow> (string, string) TypedDataDomain" where
  "sampleDomain chain =
     \<lparr> name = Some ''Permit2'', version = None, chainId = chain,
       verifyingContract = Some ''0x000000000022D473030F116dDEE9F6B43aC78BA3'', salt = None \<rparr>"

definition sampleReward :: "string \<Rightarrow> string \<Rightarrow> number \<Rightarrow> PermitReward" where
  "sampleReward raw sig chain =
     \<lparr> tokenType = ERC20,
       tokenAddress = ''0xToken'',
       beneficiary = ''0xBeneficiary'',
       nonce = ''9'',
       deadline = bigintToString MaxInt256,
       amount = raw,
       owner = ''0xAdmin'',
       signature = sig,
       networkId = chain \<rparr>"

definition sampleLocals :: locals where
  "sampleLocals =
     \<lparr> walletAddress' = Some ''0xBeneficiary'',
       issueNodeId' = ''I_kwDO'',
       evmNetworkId' = Decimal False 100 0,
       evmPrivateEncrypted' = ''ciphertext'',
       userId' = Decimal False 42 0 \<rparr>"

text \<open>The same collaborators with a signer that answers with other bytes.\<close>

definition resignedEnvironment :: environment where
  "resignedEnvironment =
     sampleEnvironment \<lparr> signTypedData := (\<lambda>w d t v. Inr ''0xOtherSignature'') \<rparr>"

text \<open>Inputs and collaborators that make the sample run fail, or sign for chain id zero.\<close>

definition offlineEnvironment :: environment where
  "offlineEnvironment = sampleEnvironment \<lparr> getFastestProvider := (\<lambda>chain. Inr None) \<rparr>"

definition corruptedPayload :: Payload where
  "corruptedPayload = samplePayload \<lparr> Payload.evmPrivateEncrypted := ''corrupted'' \<rparr>"

definition unregisteredPayload :: Payload where
  "unregisteredPayload = samplePayload \<lparr> walletAddress := [] \<rparr>"

definition zeroChainPayload :: Payload where
  "zeroChainPayload = samplePayload \<lparr> Payload.evmNetworkId := Decimal False 0 0 \<rparr>"

section \<open>Evaluating digit strings\<close>

lemma natToString_numeral [simp]:
  "natToString (numeral k) =
     (if (numeral k :: nat) < 10 then [digitChar (numeral k)]
      else natToString (numeral k div 10) @ [digitChar (numeral k mod 10)])"
  by (rule natToString.simps)

lemma natToString_0 [simp]: "natToString 0 = ''0''"
  by (simp add: natToString.simps digitChar_def)

lemma natToString_1 [simp]: "natToString 1 = ''1''"
  by (simp add: natToString.simps digitChar_def)

lemma natToString_Suc_0 [simp]: "natToString (Suc 0) = ''1''"
  by (simp add: natToString.simps digitChar_def)

lemma replicate_numeral [simp]: "replicate (numeral k) x = x # replicate (pred_numeral k) x"
  by (simp add: numeral_eq_Suc)


section \<open>Successful stages\<close>

lemma andThen_Inr:
  "andThen m f = (tr, Inr y) \<longleftrightarrow>
     (\<exists>tr1 x tr2. m = (tr1, Inr x) \<and> f x = (tr2, Inr y) \<and> tr = tr1 @ tr2)"
  by (cases m; cases "snd m") (auto simp: andThen_def split: prod.splits sum.splits)

lemma andThen_fail: "m = (tr, Inl e) \<Longrightarrow> andThen m f = (tr, Inl e)"
  by (simp add: andThen_def)

lemma andThen_ok: "m = (tr, Inr x) \<Longrightarrow> andThen m f = (tr @ fst (f x), snd (f x))"
  by (simp add: andThen_def split: prod.splits)

lemma requireUserAndWallet_Inr:
  "requireUserAndWallet username w = (tr, Inr a) \<longleftrightarrow>
     username \<noteq> [] \<and> w = Some a \<and> a \<noteq> [] \<and> tr = []"
  by (auto simp: requireUserAndWallet_def throw_def succeed_def andThen_def perform_def
           split: option.splits if_splits)

lemma resolveProvider_Inr:
  "resolveProvider env n = (tr, Inr p) \<longleftrightarrow>
     getFastestProvider env n = Inr (Some p) \<and> tr = [GetFastestProvider n]"
  by (cases "getFastestProvider env n")
     (auto simp: resolveProvider_def throw_def succeed_def andThen_def perform_def
           split: option.splits)

lemma resolvePrivateKey_Inr:
  "resolvePrivateKey env enc = (tr, Inr k) \<longleftrightarrow>
     (\<exists>dec parsed. decrypt env enc (secretString env) = Inr dec
        \<and> parseDecryptedPrivateKey env dec = Inr parsed
        \<and> privateKey parsed = Some k \<and> k \<noteq> []
        \<and> tr = [Decrypt enc (secretString env)])"
  by (cases "decrypt env enc (secretString env)")
     (auto simp: resolvePrivateKey_def tryCatch_def throw_def succeed_def andThen_def perform_def
                 lift_def Let_def
           split: option.splits sum.splits if_splits)

lemma instantiateWallet_Inr:
  "instantiateWallet lib k p = (tr, Inr w) \<longleftrightarrow> newWallet lib k p = Inr w \<and> tr = []"
  by (cases "newWallet lib k p")
     (auto simp: instantiateWallet_def tryCatch_def throw_def andThen_def perform_def lift_def Let_def)

lemma fetchTokenDecimals_Inr:
  "fetchTokenDecimals env t p = (tr, Inr d) \<longleftrightarrow> decimals env t p = Inr d \<and> tr = [Decimals t p]"
  by (cases "decimals env t p")
     (auto simp: fetchTokenDecimals_def tryCatch_def throw_def andThen_def perform_def Let_def)

lemma signPermit_Inr:
  "signPermit env w pd = (tr, Inr sig) \<longleftrightarrow>
     signTypedData env w (signerDomain (domain pd)) (types pd) (values' pd) = Inr sig
     \<and> tr = [SignTypedData w (signerDomain (domain pd)) (types pd) (values' pd)]"
  by (cases "signTypedData env w (signerDomain (domain pd)) (types pd) (values' pd)")
     (auto simp: signPermit_def tryCatch_def throw_def andThen_def perform_def Let_def)

lemma lift_Inr: "lift r = (tr, Inr x) \<longleftrightarrow> r = Inr x \<and> tr = []"
  by (auto simp: lift_def)

lemma generate_success:
  assumes "generateErc20PermitSignature lib env cop username amt tok = (tr, Inr r)"
  obtains tr0 l wallet p key adminWallet d permit pd sig where
    "resolveInputs cop username = (tr0, Inr l)"
    "username \<noteq> []" "walletAddress' l = Some wallet" "wallet \<noteq> []"
    "getFastestProvider env (evmNetworkId' l) = Inr (Some p)"
    "resolvePrivateKey env (evmPrivateEncrypted' l)
       = ([Decrypt (evmPrivateEncrypted' l) (secretString env)], Inr key)"
    "newWallet lib key p = Inr adminWallet"
    "decimals env tok p = Inr d"
    "permitTransferFromData lib tok amt d wallet (userId' l) (issueNodeId' l) = Inr permit"
    "getPermitData lib permit (PERMIT2_ADDRESS lib) (evmNetworkId' l) = Inr pd"
    "signTypedData env adminWallet (signerDomain (domain pd)) (types pd) (values' pd) = Inr sig"
    "r = erc20Permit permit adminWallet sig (evmNetworkId' l)"
    "tr = tr0 @ [GetFastestProvider (evmNetworkId' l),
                 Decrypt (evmPrivateEncrypted' l) (secretString env),
                 Decimals tok p,
                 SignTypedData adminWallet (signerDomain (domain pd)) (types pd) (values' pd),
                 LogInfo ''Generated ERC20 permit2 signature'' r]"
  using assms
  unfolding generateErc20PermitSignature_def andThen_Inr requireUserAndWallet_Inr
    resolveProvider_Inr instantiateWallet_Inr fetchTokenDecimals_Inr signPermit_Inr lift_Inr
  by (auto simp: perform_def succeed_def resolvePrivateKey_Inr)

section \<open>The events of a run\<close>

lemma andThen_events:
  assumes "\<And>ev. ev \<in> set (fst m) \<Longrightarrow> P ev"
    and "\<And>tr x ev. m = (tr, Inr x) \<Longrightarrow> ev \<in> set (fst (f x)) \<Longrightarrow> P ev"
    and "ev \<in> set (fst (andThen m f))"
  shows "P ev"
  using assms by (cases m; cases "snd m") (auto simp: andThen_def split: prod.splits)

lemma tryCatch_events:
  assumes "\<And>ev. ev \<in> set (fst m) \<Longrightarrow> P ev"
    and "\<And>tr e ev. m = (tr, Inl e) \<Longrightarrow> ev \<in> set (fst (h e)) \<Longrightarrow> P ev"
    and "ev \<in> set (fst (tryCatch m h))"
  shows "P ev"
  using assms by (cases m; cases "snd m") (auto simp: tryCatch_def split: prod.splits)

lemma resolveInputs_events:
  "ev \<in> set (fst (resolveInputs cop u)) \<Longrightarrow> isLookup ev"
  by (cases cop)
     (auto simp: succeed_def throw_def perform_def andThen_def Let_def
           split: sum.splits option.splits prod.splits)

lemma requireUserAndWallet_events:
  "ev \<in> set (fst (requireUserAndWallet u w)) \<Longrightarrow> ev = LogError walletNotFound"
  by (auto simp: requireUserAndWallet_def succeed_def throw_def perform_def andThen_def
           split: option.splits if_splits)

lemma resolveProvider_events:
  "ev \<in> set (fst (resolveProvider env n)) \<Longrightarrow>
     ev = GetFastestProvider n \<or> ev = LogError ''Provider is not defined''"
  by (cases "getFastestProvider env n")
     (auto simp: resolveProvider_def succeed_def throw_def perform_def andThen_def
           split: option.splits)

lemma resolvePrivateKey_events:
  "ev \<in> set (fst (resolvePrivateKey env enc)) \<Longrightarrow>
     ev = Decrypt enc (secretString env) \<or> (\<exists>msg. ev = LogError msg)"
  by (cases "decrypt env enc (secretString env)")
     (auto simp: resolvePrivateKey_def tryCatch_def throw_def succeed_def andThen_def perform_def
                 lift_def Let_def
           split: option.splits sum.splits if_splits)

lemma instantiateWallet_events:
  "ev \<in> set (fst (instantiateWallet lib k p)) \<Longrightarrow> (\<exists>msg. ev = LogDebug msg)"
  by (cases "newWallet lib k p")
     (auto simp: instantiateWallet_def tryCatch_def throw_def andThen_def perform_def lift_def Let_def)

lemma fetchTokenDecimals_events:
  "ev \<in> set (fst (fetchTokenDecimals env t p)) \<Longrightarrow> ev = Decimals t p \<or> (\<exists>msg. ev = LogDebug msg)"
  by (cases "decimals env t p")
     (auto simp: fetchTokenDecimals_def tryCatch_def throw_def andThen_def perform_def Let_def)

lemma signPermit_events:
  "ev \<in> set (fst (signPermit env w pd)) \<Longrightarrow>
     ev = SignTypedData w (signerDomain (domain pd)) (types pd) (values' pd) \<or> (\<exists>msg. ev = LogError msg)"
  by (cases "signTypedData env w (signerDomain (domain pd)) (types pd) (values' pd)")
     (auto simp: signPermit_def tryCatch_def throw_def andThen_def perform_def Let_def)

lemma isLookup_not_provider: "isLookup ev \<Longrightarrow> \<not> isProviderResolution ev"
  by (cases ev) auto

lemma generate_provider_event:
  assumes "ev \<in> set (fst (generateErc20PermitSignature lib env cop username amt tok))"
  shows "isProviderResolution ev \<longrightarrow>
         (\<exists>tr0 l wallet. resolveInputs cop username = (tr0, Inr l)
           \<and> requireUserAndWallet username (walletAddress' l) = ([], Inr wallet)
           \<and> ev = GetFastestProvider (evmNetworkId' l))"
    (is "?P ev")
  using assms unfolding generateErc20PermitSignature_def
  apply (rule andThen_events[where P = ?P, rotated 2])
  subgoal by (auto dest!: resolveInputs_events isLookup_not_provider)
  apply (erule andThen_events[where P = ?P, rotated 2])
  subgoal by (auto dest: requireUserAndWallet_events)
  apply (erule andThen_events[where P = ?P, rotated 2])
  subgoal by (auto dest!: resolveProvider_events simp: requireUserAndWallet_Inr)
  apply (erule andThen_events[where P = ?P, rotated 2])
  subgoal by (auto dest!: resolvePrivateKey_events)
  apply (erule andThen_events[where P = ?P, rotated 2])
  subgoal by (auto dest!: instantiateWallet_events)
  apply (erule andThen_events[where P = ?P, rotated 2])
  subgoal by (auto dest!: fetchTokenDecimals_events)
  apply (erule andThen_events[where P = ?P, rotated 2])
  subgoal by (auto simp: lift_def)
  apply (erule andThen_events[where P = ?P, rotated 2])
  subgoal by (auto simp: lift_def)
  apply (erule andThen_events[where P = ?P, rotated 2])
  subgoal by (auto dest!: signPermit_events)
  by (auto simp: andThen_def perform_def succeed_def)

section \<open>Digit strings and their values\<close>














lemma not_digit [simp]:
  "\<not> isDigit (CHR ''.'')" "\<not> isDigit (CHR ''e'')" "\<not> isDigit (CHR ''-'')"
  "\<not> isDigit (CHR ''N'')" "\<not> isDigit (CHR ''I'')"
  by (simp_all add: isDigit_def)


lemma digit_not_point: "isDigit c \<Longrightarrow> c \<noteq> CHR ''.''"
  by (auto simp: isDigit_def)










section \<open>Printing a number and parsing it back\<close>











section \<open>The decimal string of a number read back\<close>

lemma isDigit_cases:
  "isDigit c \<Longrightarrow> c = CHR ''0'' \<or> c = CHR ''1'' \<or> c = CHR ''2'' \<or> c = CHR ''3'' \<or> c = CHR ''4''
     \<or> c = CHR ''5'' \<or> c = CHR ''6'' \<or> c = CHR ''7'' \<or> c = CHR ''8'' \<or> c = CHR ''9''"
  by (auto simp: isDigit_def)

lemma digitValue_less: "isDigit c \<Longrightarrow> digitValue c < 10"
  by (drule isDigit_cases) (auto simp: digitValue_def)

lemma digitChar_digitValue: "isDigit c \<Longrightarrow> digitChar (digitValue c) = c"
  by (drule isDigit_cases) (auto simp: digitValue_def digitChar_def)

lemma digitsToNat_snoc: "digitsToNat (xs @ [c]) = 10 * digitsToNat xs + digitValue c"
  by (simp add: digitsToNat_def)

lemma natToString_digitsToNat:
  "ds \<noteq> [] \<Longrightarrow> list_all isDigit ds \<Longrightarrow> hd ds \<noteq> CHR ''0'' \<or> ds = ''0''
     \<Longrightarrow> natToString (digitsToNat ds) = ds"
proof (induction ds rule: rev_induct)
  case Nil
  then show ?case by simp
next
  case (snoc c xs)
  from snoc.prems have c: "isDigit c" and xs: "list_all isDigit xs" by simp_all
  show ?case
  proof (cases "xs = []")
    case True
    then show ?thesis
      using digitValue_less[OF c] digitChar_digitValue[OF c]
      by (subst natToString.simps) (simp add: digitsToNat_def)
  next
    case False
    with snoc.prems have h: "hd xs \<noteq> CHR ''0''" by (cases xs) auto
    with False xs snoc.IH have ih: "natToString (digitsToNat xs) = xs" by simp
    have pos: "digitsToNat xs \<noteq> 0"
    proof
      assume "digitsToNat xs = 0"
      with ih have "xs = ''0''" by simp
      with h show False by simp
    qed
    let ?n = "digitsToNat (xs @ [c])"
    have n: "?n = 10 * digitsToNat xs + digitValue c" by (rule digitsToNat_snoc)
    have "\<not> ?n < 10" using pos n by simp
    moreover have "?n div 10 = digitsToNat xs" "?n mod 10 = digitValue c"
      using digitValue_less[OF c] n by simp_all
    ultimately show ?thesis
      by (subst natToString.simps) (simp add: ih digitChar_digitValue[OF c])
  qed
qed

lemma max_digits:
  "digitsToNat ''57896044618658097711785492504343953926634992332820282019728792003956564819967''
     = 2 ^ 255 - 1"
  by (simp add: digitsToNat_def digitValue_def)

lemma MaxInt256_string:
  "bigintToString MaxInt256
     = ''57896044618658097711785492504343953926634992332820282019728792003956564819967''"
proof -
  let ?ds = "''57896044618658097711785492504343953926634992332820282019728792003956564819967''"
  have nonneg: "\<not> MaxInt256 < 0" by (simp add: MaxInt256_def)
  have a: "bigintToString MaxInt256 = natToString (nat MaxInt256)"
    unfolding bigintToString_def using nonneg by (simp only: if_False)
  have b: "nat MaxInt256 = digitsToNat ?ds"
    by (simp add: MaxInt256_def max_digits)
  have c: "natToString (digitsToNat ?ds) = ?ds"
    by (rule natToString_digitsToNat) (simp_all add: isDigit_def)
  show ?thesis by (simp only: a b c)
qed

section \<open>Runs that fail\<close>

lemma isLookup_not_decryption: "isLookup ev \<Longrightarrow> \<not> isDecryption ev"
  by (cases ev) auto

lemma isLookup_not_signing: "isLookup ev \<Longrightarrow> \<not> isSigning ev"
  by (cases ev) auto

lemma isLookup_not_decimals: "isLookup ev \<Longrightarrow> \<not> isDecimalsFetch ev"
  by (cases ev) auto

lemma generate_decrypt_event:
  assumes "ev \<in> set (fst (generateErc20PermitSignature lib env cop username amt tok))"
  shows "isDecryption ev \<longrightarrow>
         (\<exists>tr0 l wallet p. resolveInputs cop username = (tr0, Inr l)
           \<and> requireUserAndWallet username (walletAddress' l) = ([], Inr wallet)
           \<and> getFastestProvider env (evmNetworkId' l) = Inr (Some p)
           \<and> ev = Decrypt (evmPrivateEncrypted' l) (secretString env))"
    (is "?P ev")
  using assms unfolding generateErc20PermitSignature_def
  apply (rule andThen_events[where P = ?P, rotated 2])
  subgoal by (auto dest!: resolveInputs_events isLookup_not_decryption)
  apply (erule andThen_events[where P = ?P, rotated 2])
  subgoal by (auto dest: requireUserAndWallet_events)
  apply (erule andThen_events[where P = ?P, rotated 2])
  subgoal by (auto dest!: resolveProvider_events)
  apply (erule andThen_events[where P = ?P, rotated 2])
  subgoal by (auto dest!: resolvePrivateKey_events simp: requireUserAndWallet_Inr resolveProvider_Inr)
  apply (erule andThen_events[where P = ?P, rotated 2])
  subgoal by (auto dest!: instantiateWallet_events)
  apply (erule andThen_events[where P = ?P, rotated 2])
  subgoal by (auto dest!: fetchTokenDecimals_events)
  apply (erule andThen_events[where P = ?P, rotated 2])
  subgoal by (auto simp: lift_def)
  apply (erule andThen_events[where P = ?P, rotated 2])
  subgoal by (auto simp: lift_def)
  apply (erule andThen_events[where P = ?P, rotated 2])
  subgoal by (auto dest!: signPermit_events)
  by (auto simp: andThen_def perform_def succeed_def)


lemma resolvePrivateKey_failure:
  assumes "keyFailure env enc = Some cause"
  shows "resolvePrivateKey env enc
           = ([Decrypt enc (secretString env),
               LogError (''Failed to decrypt a private key: '' @ exnToString cause)],
              Inl (Error (''Failed to decrypt a private key: '' @ exnToString cause)))"
  using assms
  by (auto simp: keyFailure_def resolvePrivateKey_def tryCatch_def andThen_def perform_def
                 throw_def succeed_def lift_def Let_def
           split: sum.splits option.splits if_splits)

lemma run_without_wallet:
  assumes "resolveInputs cop username = (tr0, Inr l)"
    and "username \<noteq> []"
    and "walletAddress' l = None \<or> walletAddress' l = Some []"
  shows "generateErc20PermitSignature lib env cop username amt tok
           = (tr0 @ [LogError walletNotFound], Inl (Error walletNotFound))"
  using assms
  by (auto simp: generateErc20PermitSignature_def andThen_def requireUserAndWallet_def
                 perform_def throw_def)

lemma run_without_provider:
  assumes "resolveInputs cop username = (tr0, Inr l)"
    and "requireUserAndWallet username (walletAddress' l) = ([], Inr wallet)"
    and "getFastestProvider env (evmNetworkId' l) = Inr None"
  shows "generateErc20PermitSignature lib env cop username amt tok
           = (tr0 @ [GetFastestProvider (evmNetworkId' l), LogError ''Provider is not defined''],
              Inl (Error ''Provider is not defined''))"
  using assms
  by (simp add: generateErc20PermitSignature_def andThen_def resolveProvider_def
                perform_def throw_def)

lemma run_without_key:
  assumes "resolveInputs cop username = (tr0, Inr l)"
    and "requireUserAndWallet username (walletAddress' l) = ([], Inr wallet)"
    and "getFastestProvider env (evmNetworkId' l) = Inr (Some p)"
    and "keyFailure env (evmPrivateEncrypted' l) = Some cause"
  shows "generateErc20PermitSignature lib env cop username amt tok
           = (tr0 @ [GetFastestProvider (evmNetworkId' l),
                     Decrypt (evmPrivateEncrypted' l) (secretString env),
                     LogError (''Failed to decrypt a private key: '' @ exnToString cause)],
              Inl (Error (''Failed to decrypt a private key: '' @ exnToString cause)))"
  using assms(1-3) resolvePrivateKey_failure[OF assms(4)]
  by (simp add: generateErc20PermitSignature_def andThen_def resolveProvider_def
                perform_def throw_def succeed_def)

lemma lookups_only:
  assumes "resolveInputs cop username = (tr0, res)"
  shows "list_all isLookup tr0"
  using resolveInputs_events[of _ cop username] assms by (auto simp: list_all_iff)

lemma lookups_no_stage:
  assumes "list_all isLookup tr0"
  shows "\<not> list_ex isProviderResolution tr0" "\<not> list_ex isDecryption tr0"
    "\<not> list_ex isDecimalsFetch tr0" "\<not> list_ex isSigning tr0"
  using assms
  by (auto simp: list_all_iff list_ex_iff
           dest: isLookup_not_provider isLookup_not_decryption isLookup_not_decimals
                 isLookup_not_signing)

section \<open>The sample runs, evaluated\<close>

lemmas run_defs =
  generateErc20PermitSignature_def andThen_def tryCatch_def perform_def succeed_def throw_def
  lift_def requireUserAndWallet_def resolveProvider_def resolvePrivateKey_def secretString_def
  instantiateWallet_def fetchTokenDecimals_def permitTransferFromData_def signPermit_def
  signerDomain_def erc20Permit_def

lemmas sample_defs =
  sampleLibrary_def sampleEnvironment_def samplePayload_def sampleContext_def sampleWallet_def
  samplePermit_def sampleDomain_def sampleReward_def permit2Domain_def

lemma numberToString_1_5: "numberToString (Decimal False 15 (- 1)) = ''1.5''"
  by (simp add: magnitudeToString_def digitChar_def)

lemma numberToString_42: "numberToString (Decimal False 42 0) = ''42''"
  by (simp add: magnitudeToString_def digitChar_def)

lemma numberToString_100: "numberToString (Decimal False 100 0) = ''100''"
  by (simp add: magnitudeToString_def digitChar_def)

lemma parseUnits_1_5: "parseUnits ''1.5'' 6 = Inr 1500000"
  by (simp add: parseUnits_def matchDecimal_def matchUnsigned_def isDigit_def digitsToNat_def
                digitValue_def)

lemma bigintToString_1500000: "bigintToString 1500000 = ''1500000''"
  by (simp add: bigintToString_def digitChar_def)

lemma bigintToString_9: "bigintToString 9 = ''9''"
  by (simp add: bigintToString_def digitChar_def)

lemma bigintToString_0: "bigintToString 0 = ''0''"
  by (simp add: bigintToString_def)

lemmas sample_values =
  numberToString_1_5 numberToString_42 numberToString_100 parseUnits_1_5 bigintToString_1500000
  bigintToString_9 bigintToString_0


lemma sample_run:
  "generateErc20PermitSignature sampleLibrary sampleEnvironment (IsPayload samplePayload)
     ''alice'' (Decimal False 15 (- 1)) ''0xToken''
   = ([GetFastestProvider (Decimal False 100 0),
       Decrypt ''ciphertext'' ''secret'',
       Decimals ''0xToken'' (Provider ''https://rpc.example''),
       SignTypedData sampleWallet (sampleDomain (Some ''100'')) permitTransferFromTypes
         (samplePermit 1500000),
       LogInfo ''Generated ERC20 permit2 signature''
         (sampleReward ''1500000'' ''0xSignature'' (Decimal False 100 0))],
      Inr (sampleReward ''1500000'' ''0xSignature'' (Decimal False 100 0)))"
  by (simp add: run_defs sample_defs sample_values del: numberToString.simps)

lemmas sample_defs2 = sample_defs sampleLocals_def resignedEnvironment_def

lemma sample_inputs: "resolveInputs (IsPayload samplePayload) ''alice'' = ([], Inr sampleLocals)"
  by (simp add: succeed_def sample_defs2)

lemma context_inputs:
  "resolveInputs (IsContext sampleContext) ''alice''
     = ([GetByUsername ''alice'', GetWalletByUserId (Decimal False 42 0)], Inr sampleLocals)"
  by (simp add: succeed_def andThen_def perform_def sample_defs2)

lemma context_run:
  "generateErc20PermitSignature sampleLibrary resignedEnvironment (IsContext sampleContext)
     ''alice'' (Decimal False 15 (- 1)) ''0xToken''
   = ([GetByUsername ''alice'',
       GetWalletByUserId (Decimal False 42 0),
       GetFastestProvider (Decimal False 100 0),
       Decrypt ''ciphertext'' ''secret'',
       Decimals ''0xToken'' (Provider ''https://rpc.example''),
       SignTypedData sampleWallet (sampleDomain (Some ''100'')) permitTransferFromTypes
         (samplePermit 1500000),
       LogInfo ''Generated ERC20 permit2 signature''
         (sampleReward ''1500000'' ''0xOtherSignature'' (Decimal False 100 0))],
      Inr (sampleReward ''1500000'' ''0xOtherSignature'' (Decimal False 100 0)))"
  by (simp add: run_defs sample_defs2 sample_values del: numberToString.simps)


lemmas failing_defs =
  offlineEnvironment_def corruptedPayload_def unregisteredPayload_def zeroChainPayload_def

lemma offline_run:
  "generateErc20PermitSignature sampleLibrary offlineEnvironment (IsPayload samplePayload)
     ''alice'' (Decimal False 15 (- 1)) ''0xToken''
   = ([GetFastestProvider (Decimal False 100 0), LogError ''Provider is not defined''],
      Inl (Error ''Provider is not defined''))"
  by (simp add: run_defs sample_defs failing_defs Let_def del: numberToString.simps)

lemma corrupted_run:
  "generateErc20PermitSignature sampleLibrary sampleEnvironment (IsPayload corruptedPayload)
     ''alice'' (Decimal False 15 (- 1)) ''0xToken''
   = ([GetFastestProvider (Decimal False 100 0),
       Decrypt ''corrupted'' ''secret'',
       LogError ''Failed to decrypt a private key: Error: incorrect key pair for the given ciphertext''],
      Inl (Error ''Failed to decrypt a private key: Error: incorrect key pair for the given ciphertext''))"
  by (simp add: run_defs sample_defs failing_defs exnToString_def Error_def Let_def
           del: numberToString.simps)

lemma corrupted_key:
  "keyFailure sampleEnvironment ''corrupted''
     = Some (Error ''incorrect key pair for the given ciphertext'')"
  by (simp add: keyFailure_def secretString_def sampleEnvironment_def)

lemma unregistered_run:
  "generateErc20PermitSignature sampleLibrary sampleEnvironment (IsPayload unregisteredPayload)
     ''alice'' (Decimal False 15 (- 1)) ''0xToken''
   = ([LogError walletNotFound], Inl (Error walletNotFound))"
  by (simp add: run_defs sample_defs failing_defs Let_def del: numberToString.simps)


section \<open>Properties of the handler\<close>

subsection \<open>C1\<close>



subsection \<open>C2\<close>




subsection \<open>C3\<close>

text \<open>
  Claim C3. Two successful calls on the same amount and token, whose inputs resolve to the
  same user id, event id, wallet address and network id, and whose decimals fetch answers
  the same, return rewards with the same nonce, token address, beneficiary, amount and
  deadline; the collaborators, the signer among them, may differ otherwise.
\<close>

theorem idempotent_fields:
  assumes run1: "generateErc20PermitSignature lib env1 cop1 username1 amt tok = (tr1, Inr r1)"
    and run2: "generateErc20PermitSignature lib env2 cop2 username2 amt tok = (tr2, Inr r2)"
    and in1: "resolveInputs cop1 username1 = (t1, Inr l1)"
    and in2: "resolveInputs cop2 username2 = (t2, Inr l2)"
    and same: "userId' l1 = userId' l2" "issueNodeId' l1 = issueNodeId' l2"
      "walletAddress' l1 = walletAddress' l2" "evmNetworkId' l1 = evmNetworkId' l2"
    and dec: "\<And>p1 p2. decimals env1 tok p1 = decimals env2 tok p2"
  shows "PermitReward.nonce r1 = PermitReward.nonce r2
       \<and> tokenAddress r1 = tokenAddress r2
       \<and> beneficiary r1 = beneficiary r2
       \<and> PermitReward.amount r1 = PermitReward.amount r2
       \<and> PermitReward.deadline r1 = PermitReward.deadline r2"
proof -
  from run1 in1 obtain wallet1 p1 adminWallet1 d1 permit1 sig1 where
    a: "walletAddress' l1 = Some wallet1" "decimals env1 tok p1 = Inr d1"
       "permitTransferFromData lib tok amt d1 wallet1 (userId' l1) (issueNodeId' l1) = Inr permit1"
       "r1 = erc20Permit permit1 adminWallet1 sig1 (evmNetworkId' l1)"
    by (auto elim!: generate_success)
  from run2 in2 obtain wallet2 p2 adminWallet2 d2 permit2 sig2 where
    b: "walletAddress' l2 = Some wallet2" "decimals env2 tok p2 = Inr d2"
       "permitTransferFromData lib tok amt d2 wallet2 (userId' l2) (issueNodeId' l2) = Inr permit2"
       "r2 = erc20Permit permit2 adminWallet2 sig2 (evmNetworkId' l2)"
    by (auto elim!: generate_success)
  from a(2) b(2) dec[of p1 p2] have "d1 = d2" by simp
  moreover from a(1) b(1) same(3) have "wallet1 = wallet2" by simp
  ultimately have "permit1 = permit2" using a(3) b(3) same by simp
  then show ?thesis by (simp add: a(4) b(4) erc20Permit_def)
qed

theorem idempotent_fields_witness:
  "generateErc20PermitSignature sampleLibrary sampleEnvironment (IsPayload samplePayload)
     ''alice'' (Decimal False 15 (- 1)) ''0xToken''
   = ([GetFastestProvider (Decimal False 100 0),
       Decrypt ''ciphertext'' ''secret'',
       Decimals ''0xToken'' (Provider ''https://rpc.example''),
       SignTypedData sampleWallet (sampleDomain (Some ''100'')) permitTransferFromTypes
         (samplePermit 1500000),
       LogInfo ''Generated ERC20 permit2 signature''
         (sampleReward ''1500000'' ''0xSignature'' (Decimal False 100 0))],
      Inr (sampleReward ''1500000'' ''0xSignature'' (Decimal False 100 0)))
   \<and> snd (generateErc20PermitSignature sampleLibrary resignedEnvironment (IsContext sampleContext)
          ''alice'' (Decimal False 15 (- 1)) ''0xToken'')
       = Inr (sampleReward ''1500000'' ''0xOtherSignature'' (Decimal False 100 0))
   \<and> (PermitReward.nonce (sampleReward ''1500000'' ''0xSignature'' (Decimal False 100 0))
         = PermitReward.nonce (sampleReward ''1500000'' ''0xOtherSignature'' (Decimal False 100 0))
       \<and> tokenAddress (sampleReward ''1500000'' ''0xSignature'' (Decimal False 100 0))
         = tokenAddress (sampleReward ''1500000'' ''0xOtherSignature'' (Decimal False 100 0))
       \<and> beneficiary (sampleReward ''1500000'' ''0xSignature'' (Decimal False 100 0))
         = beneficiary (sampleReward ''1500000'' ''0xOtherSignature'' (Decimal False 100 0))
       \<and> PermitReward.amount (sampleReward ''1500000'' ''0xSignature'' (Decimal False 100 0))
         = PermitReward.amount (sampleReward ''1500000'' ''0xOtherSignature'' (Decimal False 100 0))
       \<and> PermitReward.deadline (sampleReward ''1500000'' ''0xSignature'' (Decimal False 100 0))
         = PermitReward.deadline (sampleReward ''1500000'' ''0xOtherSignature'' (Decimal False 100 0)))"
proof -
  have dec: "decimals sampleEnvironment ''0xToken'' p1 = decimals resignedEnvironment ''0xToken'' p2"
    for p1 p2
    by (simp add: sample_defs2)
  have sig: "sampleReward ''1500000'' ''0xSignature'' (Decimal False 100 0)
               \<noteq> sampleReward ''1500000'' ''0xOtherSignature'' (Decimal False 100 0)"
    by (simp add: sampleReward_def)
  from context_run
  have second: "snd (generateErc20PermitSignature sampleLibrary resignedEnvironment
                  (IsContext sampleContext) ''alice'' (Decimal False 15 (- 1)) ''0xToken'')
                = Inr (sampleReward ''1500000'' ''0xOtherSignature'' (Decimal False 100 0))"
    by simp
  show ?thesis
    by (intro conjI[OF sample_run] conjI[OF second]
          idempotent_fields[OF sample_run context_run sample_inputs context_inputs refl refl refl refl dec])
qed

subsection \<open>C4\<close>

text \<open>
  Claim C4, as the code has it. When a call attempts decryption and the key material is
  unusable (decryption throws, parsing throws, or the private-key field is missing or
  empty), the call fails with \<open>Failed to decrypt a private key\<close> and the cause, nothing
  is signed and the token's decimals are not fetched. The provider was resolved just before:
  the trace is the lookups, the provider resolution, the decryption and the logged error.
\<close>

theorem decryption_failure:
  assumes run: "generateErc20PermitSignature lib env cop username amt tok = (tr, res)"
    and attempted: "Decrypt enc sec \<in> set tr"
    and unusable: "keyFailure env enc = Some cause"
  shows "res = Inl (Error (''Failed to decrypt a private key: '' @ exnToString cause))
       \<and> \<not> list_ex isSigning tr
       \<and> \<not> list_ex isDecimalsFetch tr
       \<and> (\<exists>tr0 n. list_all isLookup tr0
             \<and> tr = tr0 @ [GetFastestProvider n, Decrypt enc sec,
                            LogError (''Failed to decrypt a private key: '' @ exnToString cause)])"
proof -
  from attempted run
  have "Decrypt enc sec \<in> set (fst (generateErc20PermitSignature lib env cop username amt tok))"
    by simp
  from generate_decrypt_event[OF this] obtain tr0 l wallet p where
    r: "resolveInputs cop username = (tr0, Inr l)"
    and w: "requireUserAndWallet username (walletAddress' l) = ([], Inr wallet)"
    and p: "getFastestProvider env (evmNetworkId' l) = Inr (Some p)"
    and e: "enc = evmPrivateEncrypted' l" "sec = secretString env"
    by auto
  from unusable e have k: "keyFailure env (evmPrivateEncrypted' l) = Some cause" by simp
  from run_without_key[OF r w p k, of lib amt tok] run e
  have tr: "tr = tr0 @ [GetFastestProvider (evmNetworkId' l), Decrypt enc sec,
                        LogError (''Failed to decrypt a private key: '' @ exnToString cause)]"
    and res: "res = Inl (Error (''Failed to decrypt a private key: '' @ exnToString cause))"
    by simp_all
  from lookups_no_stage[OF lookups_only[OF r]] lookups_only[OF r] show ?thesis
    by (auto simp: tr res)
qed

theorem decryption_failure_witness:
  "generateErc20PermitSignature sampleLibrary sampleEnvironment (IsPayload corruptedPayload)
     ''alice'' (Decimal False 15 (- 1)) ''0xToken''
   = ([GetFastestProvider (Decimal False 100 0),
       Decrypt ''corrupted'' ''secret'',
       LogError ''Failed to decrypt a private key: Error: incorrect key pair for the given ciphertext''],
      Inl (Error ''Failed to decrypt a private key: Error: incorrect key pair for the given ciphertext''))
   \<and> keyFailure sampleEnvironment ''corrupted''
       = Some (Error ''incorrect key pair for the given ciphertext'')
   \<and> \<not> list_ex isSigning
         [GetFastestProvider (Decimal False 100 0),
          Decrypt ''corrupted'' ''secret'',
          LogError ''Failed to decrypt a private key: Error: incorrect key pair for the given ciphertext'']
   \<and> \<not> list_ex isDecimalsFetch
         [GetFastestProvider (Decimal False 100 0),
          Decrypt ''corrupted'' ''secret'',
          LogError ''Failed to decrypt a private key: Error: incorrect key pair for the given ciphertext'']"
proof -
  have attempted: "Decrypt ''corrupted'' ''secret''
      \<in> set [GetFastestProvider (Decimal False 100 0),
              Decrypt ''corrupted'' ''secret'',
              LogError ''Failed to decrypt a private key: Error: incorrect key pair for the given ciphertext'']"
    by simp
  from decryption_failure[OF corrupted_run attempted corrupted_key]
  have "\<not> list_ex isSigning
         [GetFastestProvider (Decimal False 100 0),
          Decrypt ''corrupted'' ''secret'',
          LogError ''Failed to decrypt a private key: Error: incorrect key pair for the given ciphertext'']"
    and "\<not> list_ex isDecimalsFetch
         [GetFastestProvider (Decimal False 100 0),
          Decrypt ''corrupted'' ''secret'',
          LogError ''Failed to decrypt a private key: Error: incorrect key pair for the given ciphertext'']"
    by blast+
  with corrupted_run corrupted_key show ?thesis by (intro conjI)
qed

text \<open>
  As the claim is stated it fails: with a corrupted ciphertext the call has already
  resolved its provider, a network call, when decryption fails.
\<close>

theorem decryption_failure_counterexample:
  "keyFailure sampleEnvironment (Payload.evmPrivateEncrypted corruptedPayload)
     = Some (Error ''incorrect key pair for the given ciphertext'')
   \<and> fst (generateErc20PermitSignature sampleLibrary sampleEnvironment (IsPayload corruptedPayload)
          ''alice'' (Decimal False 15 (- 1)) ''0xToken'')
       = [GetFastestProvider (Decimal False 100 0),
          Decrypt ''corrupted'' ''secret'',
          LogError ''Failed to decrypt a private key: Error: incorrect key pair for the given ciphertext'']
   \<and> isNetworkCall (GetFastestProvider (Decimal False 100 0))
   \<and> list_ex isNetworkCall
        (fst (generateErc20PermitSignature sampleLibrary sampleEnvironment
               (IsPayload corruptedPayload) ''alice'' (Decimal False 15 (- 1)) ''0xToken''))"
proof -
  have a: "keyFailure sampleEnvironment (Payload.evmPrivateEncrypted corruptedPayload)
             = Some (Error ''incorrect key pair for the given ciphertext'')"
    using corrupted_key by (simp add: corruptedPayload_def samplePayload_def)
  have b: "fst (generateErc20PermitSignature sampleLibrary sampleEnvironment
                 (IsPayload corruptedPayload) ''alice'' (Decimal False 15 (- 1)) ''0xToken'')
           = [GetFastestProvider (Decimal False 100 0),
              Decrypt ''corrupted'' ''secret'',
              LogError ''Failed to decrypt a private key: Error: incorrect key pair for the given ciphertext'']"
    by (simp add: corrupted_run)
  have c: "isNetworkCall (GetFastestProvider (Decimal False 100 0))"
    by (simp add: isNetworkCall_def)
  have d: "list_ex isNetworkCall
             (fst (generateErc20PermitSignature sampleLibrary sampleEnvironment
               (IsPayload corruptedPayload) ''alice'' (Decimal False 15 (- 1)) ''0xToken''))"
    by (simp add: corrupted_run isNetworkCall_def)
  from a b c d show ?thesis by (intro conjI)
qed

subsection \<open>C5\<close>

text \<open>
  Claim C5, as the code has it. When the username is not empty, the inputs resolve and the
  wallet address is absent or empty, the call logs and throws the wallet-not-found error
  right after the lookups, before any provider resolution, decryption, decimals fetch or
  signing.
\<close>

theorem wallet_missing:
  assumes r: "resolveInputs cop username = (tr0, Inr l)"
    and u: "username \<noteq> []"
    and w: "walletAddress' l = None \<or> walletAddress' l = Some []"
  shows "generateErc20PermitSignature lib env cop username amt tok
           = (tr0 @ [LogError walletNotFound], Inl (Error walletNotFound))
       \<and> \<not> list_ex isDecryption (tr0 @ [LogError walletNotFound])
       \<and> \<not> list_ex isProviderResolution (tr0 @ [LogError walletNotFound])
       \<and> \<not> list_ex isDecimalsFetch (tr0 @ [LogError walletNotFound])
       \<and> \<not> list_ex isSigning (tr0 @ [LogError walletNotFound])"
  using run_without_wallet[OF r u w, of lib env amt tok] lookups_no_stage[OF lookups_only[OF r]]
  by simp

theorem wallet_missing_witness:
  "resolveInputs (IsPayload unregisteredPayload) ''alice''
     = ([], Inr (sampleLocals \<lparr> walletAddress' := Some [] \<rparr>))
   \<and> ''alice'' \<noteq> []
   \<and> generateErc20PermitSignature sampleLibrary sampleEnvironment (IsPayload unregisteredPayload)
        ''alice'' (Decimal False 15 (- 1)) ''0xToken''
       = ([] @ [LogError walletNotFound], Inl (Error walletNotFound))
   \<and> \<not> list_ex isDecryption ([] @ [LogError walletNotFound])
   \<and> \<not> list_ex isProviderResolution ([] @ [LogError walletNotFound])
   \<and> \<not> list_ex isDecimalsFetch ([] @ [LogError walletNotFound])
   \<and> \<not> list_ex isSigning ([] @ [LogError walletNotFound])"
proof -
  have r: "resolveInputs (IsPayload unregisteredPayload) ''alice''
             = ([], Inr (sampleLocals \<lparr> walletAddress' := Some [] \<rparr>))"
    by (simp add: succeed_def unregisteredPayload_def samplePayload_def sampleLocals_def)
  have u: "''alice'' \<noteq> []" by simp
  have w: "walletAddress' (sampleLocals \<lparr> walletAddress' := Some [] \<rparr>) = None
         \<or> walletAddress' (sampleLocals \<lparr> walletAddress' := Some [] \<rparr>) = Some []"
    by simp
  show ?thesis
    by (intro conjI[OF r] conjI[OF u] wallet_missing[OF r u w])
qed

text \<open>
  As the claim is stated it fails when the username is empty too: the username is checked
  first, and the call throws \<open>User was not found\<close>.
\<close>

theorem wallet_missing_counterexample:
  "walletAddress unregisteredPayload = []
   \<and> generateErc20PermitSignature sampleLibrary sampleEnvironment (IsPayload unregisteredPayload)
        [] (Decimal False 15 (- 1)) ''0xToken''
       = ([], Inl (Error ''User was not found''))
   \<and> Error ''User was not found'' \<noteq> Error walletNotFound"
  by (simp add: run_defs sample_defs failing_defs walletNotFound_def Error_def Let_def
           del: numberToString.simps)

subsection \<open>C6\<close>

text \<open>
  Claim C6. The deadline of every reward is the decimal string of \<open>2 ^ 255 - 1\<close>, the
  largest signed 256-bit integer, whatever the inputs and the collaborators are.
\<close>

theorem deadline_is_max:
  assumes "generateErc20PermitSignature lib env cop username amt tok = (tr, Inr r)"
  shows "PermitReward.deadline r = bigintToString (2 ^ 255 - 1)
       \<and> PermitReward.deadline r
           = ''57896044618658097711785492504343953926634992332820282019728792003956564819967''"
proof -
  from assms obtain tr0 l wallet adminWallet d permit sig where
    "resolveInputs cop username = (tr0, Inr l)"
    "permitTransferFromData lib tok amt d wallet (userId' l) (issueNodeId' l) = Inr permit"
    "r = erc20Permit permit adminWallet sig (evmNetworkId' l)"
    by (rule generate_success) blast
  then have d: "PermitReward.deadline r = bigintToString MaxInt256"
    by (auto simp: erc20Permit_def permitTransferFromData_def split: sum.splits)
  have m: "bigintToString (2 ^ 255 - 1) = bigintToString MaxInt256"
    by (simp only: MaxInt256_def)
  show ?thesis
    by (simp only: d m MaxInt256_string simp_thms)
qed

theorem deadline_is_max_witness:
  "generateErc20PermitSignature sampleLibrary sampleEnvironment (IsPayload samplePayload)
     ''alice'' (Decimal False 15 (- 1)) ''0xToken''
   = ([GetFastestProvider (Decimal False 100 0),
       Decrypt ''ciphertext'' ''secret'',
       Decimals ''0xToken'' (Provider ''https://rpc.example''),
       SignTypedData sampleWallet (sampleDomain (Some ''100'')) permitTransferFromTypes
         (samplePermit 1500000),
       LogInfo ''Generated ERC20 permit2 signature''
         (sampleReward ''1500000'' ''0xSignature'' (Decimal False 100 0))],
      Inr (sampleReward ''1500000'' ''0xSignature'' (Decimal False 100 0)))
   \<and> PermitReward.deadline (sampleReward ''1500000'' ''0xSignature'' (Decimal False 100 0))
       = bigintToString (2 ^ 255 - 1)
   \<and> PermitReward.deadline (sampleReward ''1500000'' ''0xSignature'' (Decimal False 100 0))
       = ''57896044618658097711785492504343953926634992332820282019728792003956564819967''"
  by (rule conjI[OF sample_run deadline_is_max[OF sample_run]])

subsection \<open>C7\<close>



subsection \<open>C8\<close>

text \<open>
  Claim C8. When the provider-selection collaborator is called and answers with no
  connection, the call throws \<open>Provider is not defined\<close>, and nothing was decrypted, no
  decimals were fetched and nothing was signed.
\<close>

theorem provider_unavailable:
  assumes run: "generateErc20PermitSignature lib env cop username amt tok = (tr, res)"
    and called: "GetFastestProvider n \<in> set tr"
    and none: "getFastestProvider env n = Inr None"
  shows "res = Inl (Error ''Provider is not defined'')
       \<and> \<not> list_ex isDecryption tr
       \<and> \<not> list_ex isDecimalsFetch tr
       \<and> \<not> list_ex isSigning tr"
proof -
  from called run
  have "GetFastestProvider n \<in> set (fst (generateErc20PermitSignature lib env cop username amt tok))"
    by simp
  from generate_provider_event[OF this] obtain tr0 l wallet where
    r: "resolveInputs cop username = (tr0, Inr l)"
    and w: "requireUserAndWallet username (walletAddress' l) = ([], Inr wallet)"
    and n: "n = evmNetworkId' l"
    by auto
  from run_without_provider[OF r w, of env lib amt tok] none n run
  have tr: "tr = tr0 @ [GetFastestProvider n, LogError ''Provider is not defined'']"
    and res: "res = Inl (Error ''Provider is not defined'')"
    by simp_all
  from lookups_no_stage[OF lookups_only[OF r]] show ?thesis
    by (simp add: tr res)
qed

theorem provider_unavailable_witness:
  "generateErc20PermitSignature sampleLibrary offlineEnvironment (IsPayload samplePayload)
     ''alice'' (Decimal False 15 (- 1)) ''0xToken''
   = ([GetFastestProvider (Decimal False 100 0), LogError ''Provider is not defined''],
      Inl (Error ''Provider is not defined''))
   \<and> getFastestProvider offlineEnvironment (Decimal False 100 0) = Inr None
   \<and> (Inl (Error ''Provider is not defined'') :: exn + PermitReward)
       = Inl (Error ''Provider is not defined'')
   \<and> \<not> list_ex isDecryption
         [GetFastestProvider (Decimal False 100 0), LogError ''Provider is not defined'']
   \<and> \<not> list_ex isDecimalsFetch
         [GetFastestProvider (Decimal False 100 0), LogError ''Provider is not defined'']
   \<and> \<not> list_ex isSigning
         [GetFastestProvider (Decimal False 100 0), LogError ''Provider is not defined'']"
proof -
  have none: "getFastestProvider offlineEnvironment (Decimal False 100 0) = Inr None"
    by (simp add: offlineEnvironment_def)
  have called: "GetFastestProvider (Decimal False 100 0)
      \<in> set [GetFastestProvider (Decimal False 100 0), LogError ''Provider is not defined'']"
    by simp
  show ?thesis
    by (intro conjI[OF offline_run] conjI[OF none]
          provider_unavailable[OF offline_run called none])
qed

subsection \<open>C9\<close>



subsection \<open>C10\<close>

text \<open>
  Claim C10. In the payload call shape an empty username makes the call throw
  \<open>User was not found\<close> with an empty trace: nothing was looked up, no provider was
  resolved, nothing was decrypted and nothing was signed.
\<close>

theorem empty_username_payload:
  "generateErc20PermitSignature lib env (IsPayload p) [] amt tok
     = ([], Inl (Error ''User was not found''))"
  by (simp add: generateErc20PermitSignature_def andThen_def succeed_def throw_def
                requireUserAndWallet_def)

theorem empty_username_payload_witness:
  "generateErc20PermitSignature sampleLibrary sampleEnvironment (IsPayload samplePayload) []
     (Decimal False 15 (- 1)) ''0xToken''
   = ([], Inl (Error ''User was not found''))"
  by (rule empty_username_payload)

end
